theory Spec2Isabelle
  imports Main "HOL-Library.Sublist" "HOL-Library.Char_ord" "HOL-Library.List_Lexorder"
begin

section \<open>The package crawler of \<^verbatim>\<open>data.py\<close>\<close>

text \<open>
  A shallow embedding of \<^verbatim>\<open>data.py\<close>: \<^verbatim>\<open>get_links\<close>, the class
  \<^verbatim>\<open>PackageCrawler\<close> and the class \<^verbatim>\<open>Package\<close>. Every function of the
  source takes the world (file system, HTTP requests issued so far, log records) and
  returns its result together with the new world; a raised exception is the left injection
  of the result.

  Python strings are \<^typ>\<open>string\<close>, read as UTF-8 bytes: comparing UTF-8 byte strings
  lexicographically is comparing code points lexicographically, which is what Python's
  \<^verbatim>\<open><\<close> on \<^verbatim>\<open>str\<close> does, and the ASCII suffixes and character sets of the source
  match bytes exactly where they match code points.
\<close>

subsection \<open>Exceptions\<close>

datatype py_error =
    AttributeError string       \<comment> \<open>the attribute that is missing\<close>
  | UnboundLocalError string    \<comment> \<open>the local variable that was never assigned\<close>
  | KeyError string             \<comment> \<open>the key that is missing\<close>
  | IndexError
  | TypeError
  | JSONDecodeError
  | RequestException string     \<comment> \<open>raised by \<^verbatim>\<open>requests.get\<close>, with its message\<close>
  | FileNotFoundError
  | FileExistsError
  | IsADirectoryError
  | DistError string            \<comment> \<open>raised by the \<^verbatim>\<open>pkginfo\<close> readers\<close>
  | ParserError string          \<comment> \<open>raised by the HTML parser\<close>

subsection \<open>Values of the libraries\<close>

text \<open>The response of \<^verbatim>\<open>requests.get\<close>: the fields the source reads.\<close>

record response =
  res_text :: string
  res_content :: string
  status_code :: int

text \<open>
  An anchor element as \<^verbatim>\<open>find_all('a')\<close> returns it: \<^verbatim>\<open>link.string\<close> is the
  single text child or \<^verbatim>\<open>None\<close>, \<^verbatim>\<open>link[key]\<close> looks the attribute dictionary up.
\<close>

record anchor =
  a_string :: "string option"
  attrs :: "(string \<times> string) list"

text \<open>A link is the pair \<^verbatim>\<open>(link.string, link['href'])\<close>.\<close>

type_synonym link = "string option \<times> string"

text \<open>Python values, as far as \<^verbatim>\<open>json.load\<close> and \<^verbatim>\<open>json.dump\<close> see them.\<close>

datatype pyval =
    PNone
  | PBool bool
  | PInt int
  | PFloat string
  | PStr string
  | PList "pyval list"
  | PTuple "pyval list"
  | PDict "(string \<times> pyval) list"

datatype dist_class = SDist | Wheel

text \<open>What a \<^verbatim>\<open>pkginfo\<close> reader holds once constructed on a file.\<close>

record distribution =
  dist_kind :: dist_class
  dist_filename :: string
  dist_fields :: "(string \<times> string) list"

subsection \<open>The world\<close>

datatype level = DEBUG | ERROR

datatype log_arg = LStr string | LOpt "string option" | LInt int | LErr py_error

text \<open>A log record keeps the format string and its arguments, as \<^verbatim>\<open>logging\<close> does.\<close>

type_synonym log_record = "level \<times> string \<times> log_arg list"

text \<open>A resolved absolute path: its components below the root.\<close>

type_synonym path = "string list"

record world =
  cwd :: path
  dirs :: "path list"
  files :: "(path \<times> string) list"
  requests :: "string list"
  log :: "log_record list"

text \<open>
  What the program does not decide: the answers of the network (the \<open>n\<close>-th request of
  the process, to a URL, raises with a message or returns a response), the anchors the HTML
  parser finds in a text, the JSON codec, the \<^verbatim>\<open>pkginfo\<close> readers (on the content of the
  file they open) and the names \<^verbatim>\<open>tempfile\<close> tries for a temporary directory.
\<close>

record env =
  net :: "nat \<Rightarrow> string \<Rightarrow> string + response"
  find_all_a :: "string \<Rightarrow> py_error + anchor list"
  json_loads :: "string \<Rightarrow> pyval option"
  json_dumps :: "pyval \<Rightarrow> py_error + string"
  dist_read :: "dist_class \<Rightarrow> string \<Rightarrow> py_error + (string \<times> string) list"
  tmp_names :: "string list"

subsection \<open>Logging and HTTP\<close>

definition logger_debug :: "string \<Rightarrow> log_arg list \<Rightarrow> world \<Rightarrow> world" where
  "logger_debug fmt args w = w\<lparr>log := log w @ [(DEBUG, fmt, args)]\<rparr>"

definition logger_error :: "string \<Rightarrow> log_arg list \<Rightarrow> world \<Rightarrow> world" where
  "logger_error fmt args w = w\<lparr>log := log w @ [(ERROR, fmt, args)]\<rparr>"

text \<open>\<^verbatim>\<open>requests.get(url)\<close>: one request is issued, whatever the outcome.\<close>

definition requests_get :: "env \<Rightarrow> world \<Rightarrow> string \<Rightarrow> (py_error + response) \<times> world" where
  "requests_get E w url =
     (let w' = w\<lparr>requests := requests w @ [url]\<rparr> in
      case net E (length (requests w)) url of
        Inl msg \<Rightarrow> (Inl (RequestException msg), w')
      | Inr res \<Rightarrow> (Inr res, w'))"

subsection \<open>\<^verbatim>\<open>get_links\<close>\<close>

text \<open>\<^verbatim>\<open>link['href']\<close>: a missing key raises \<^verbatim>\<open>KeyError\<close>.\<close>

definition getitem :: "anchor \<Rightarrow> string \<Rightarrow> py_error + string" where
  "getitem a k = (case map_of (attrs a) k of None \<Rightarrow> Inl (KeyError k) | Some v \<Rightarrow> Inr v)"

text \<open>
  The comprehension \<^verbatim>\<open>[(link.string, link['href']) for link in links]\<close>: the first
  anchor whose lookup raises ends it.
\<close>

fun link_pairs :: "anchor list \<Rightarrow> py_error + link list" where
  "link_pairs [] = Inr []"
| "link_pairs (a # as) =
     (case getitem a ''href'' of
        Inl e \<Rightarrow> Inl e
      | Inr h \<Rightarrow> (case link_pairs as of
                    Inl e \<Rightarrow> Inl e
                  | Inr ls \<Rightarrow> Inr ((a_string a, h) # ls)))"

text \<open>
  \<^verbatim>\<open>get_links(url)\<close>. The \<^verbatim>\<open>try\<close> assigns \<^verbatim>\<open>res\<close> only when the request returns;
  the handler logs and falls through, so \<^verbatim>\<open>res.text\<close> is then a read of an unassigned
  local.
\<close>

definition get_links :: "env \<Rightarrow> world \<Rightarrow> string \<Rightarrow> (py_error + link list) \<times> world" where
  "get_links E w url =
     (let (r, w1) = requests_get E w url;
          (res, w2) = (case r of
             Inr x \<Rightarrow> (Some x, logger_debug ''Successfully made the request to %s'' [LStr url] w1)
           | Inl e \<Rightarrow> (None, logger_error ''Failed to make the request: %s'' [LErr e] w1));
          w3 = logger_debug ''Parsing the HTML content...'' [] w2
      in case res of
           None \<Rightarrow> (Inl (UnboundLocalError ''res''), w3)
         | Some x \<Rightarrow>
            (case find_all_a E (res_text x) of
               Inl e \<Rightarrow> (Inl e, w3)
             | Inr links \<Rightarrow>
                (let w4 = logger_debug ''HTML parsing complete.'' [] w3;
                     w5 = logger_debug ''Extracting links...'' [] w4;
                     w6 = logger_debug ''Extracted %d links.'' [LInt (int (length links))] w5
                 in (link_pairs links, w6))))"

subsection \<open>The file system\<close>

text \<open>
  Paths are resolved lexically against the working directory (no symbolic links, no
  permissions): empty and \<^verbatim>\<open>.\<close> components are skipped, \<^verbatim>\<open>..\<close> drops the last
  component.
\<close>

fun split_slash :: "string \<Rightarrow> string list" where
  "split_slash [] = [[]]"
| "split_slash (c # cs) =
     (if c = CHR ''/'' then [] # split_slash cs
      else (case split_slash cs of
              [] \<Rightarrow> [[c]]
            | x # xs \<Rightarrow> (c # x) # xs))"

definition norm_step :: "path \<Rightarrow> string \<Rightarrow> path" where
  "norm_step p c =
     (if c = [] \<or> c = ''.'' then p else if c = ''..'' then butlast p else p @ [c])"

definition resolve :: "path \<Rightarrow> string \<Rightarrow> path" where
  "resolve cw s = foldl norm_step (if prefix ''/'' s then [] else cw) (split_slash s)"

definition is_dir :: "world \<Rightarrow> path \<Rightarrow> bool" where
  "is_dir w p = (p = [] \<or> p \<in> set (dirs w))"

definition is_file :: "world \<Rightarrow> path \<Rightarrow> bool" where
  "is_file w p = (map_of (files w) p \<noteq> None)"

text \<open>\<^verbatim>\<open>os.path.exists(s)\<close>\<close>

definition os_path_exists :: "world \<Rightarrow> string \<Rightarrow> bool" where
  "os_path_exists w s = (let p = resolve (cwd w) s in s \<noteq> [] \<and> (is_dir w p \<or> is_file w p))"

text \<open>\<^verbatim>\<open>open(s).read()\<close>\<close>

definition open_read :: "world \<Rightarrow> string \<Rightarrow> py_error + string" where
  "open_read w s =
     (let p = resolve (cwd w) s in
      if s = [] then Inl FileNotFoundError
      else if is_dir w p then Inl IsADirectoryError
      else (case map_of (files w) p of
              None \<Rightarrow> Inl FileNotFoundError
            | Some c \<Rightarrow> Inr c))"

text \<open>\<^verbatim>\<open>f.write(data)\<close> on a file opened for writing at the resolved path \<open>p\<close>.\<close>

definition file_write :: "path \<Rightarrow> string \<Rightarrow> world \<Rightarrow> world" where
  "file_write p data w = w\<lparr>files := (p, data) # filter (\<lambda>(q, _). q \<noteq> p) (files w)\<rparr>"

text \<open>
  \<^verbatim>\<open>open(s, 'w')\<close> and \<^verbatim>\<open>open(s, 'wb')\<close>: the file is created or truncated; the
  result is the resolved path the handle writes to.
\<close>

definition open_write :: "world \<Rightarrow> string \<Rightarrow> (py_error + path) \<times> world" where
  "open_write w s =
     (let p = resolve (cwd w) s in
      if s = [] then (Inl FileNotFoundError, w)
      else if is_dir w p \<or> suffix ''/'' s then (Inl IsADirectoryError, w)
      else if \<not> is_dir w (butlast p) then (Inl FileNotFoundError, w)
      else (Inr p, file_write p [] w))"

text \<open>
  \<^verbatim>\<open>tempfile.mkdtemp\<close>, under \<^verbatim>\<open>TemporaryDirectory()\<close>: the first candidate name
  that does not exist is created.
\<close>

fun mkdtemp :: "world \<Rightarrow> string list \<Rightarrow> py_error + string \<times> world" where
  "mkdtemp w [] = Inl FileExistsError"
| "mkdtemp w (n # ns) =
     (let p = resolve (cwd w) n in
      if is_dir w p \<or> is_file w p then mkdtemp w ns
      else if \<not> is_dir w (butlast p) then Inl FileNotFoundError
      else Inr (n, w\<lparr>dirs := p # dirs w\<rparr>))"

text \<open>\<^verbatim>\<open>shutil.rmtree\<close>, as the exit of \<^verbatim>\<open>TemporaryDirectory\<close> calls it.\<close>

definition rmtree :: "path \<Rightarrow> world \<Rightarrow> world" where
  "rmtree p w =
     w\<lparr>dirs := filter (\<lambda>q. \<not> prefix p q) (dirs w),
       files := filter (\<lambda>(q, _). \<not> prefix p q) (files w)\<rparr>"

text \<open>\<^verbatim>\<open>os.path.join(a, b)\<close> of \<^verbatim>\<open>posixpath\<close>; a \<^verbatim>\<open>None\<close> component is a type error.\<close>

definition os_path_join :: "string \<Rightarrow> string option \<Rightarrow> py_error + string" where
  "os_path_join a b =
     (case b of
        None \<Rightarrow> Inl TypeError
      | Some b' \<Rightarrow>
          Inr (if prefix ''/'' b' then b'
               else if a = [] \<or> suffix ''/'' a then a @ b'
               else a @ ''/'' @ b'))"

text \<open>\<^verbatim>\<open>s.endswith(suf)\<close>\<close>

definition endswith :: "string \<Rightarrow> string \<Rightarrow> bool" where
  "endswith s suf = suffix suf s"

text \<open>\<^verbatim>\<open>s.rstrip(chars)\<close>: trailing characters are dropped while they are in \<open>chars\<close>.\<close>

definition rstrip :: "string \<Rightarrow> string \<Rightarrow> string" where
  "rstrip s chars = rev (dropWhile (\<lambda>c. c \<in> set chars) (rev s))"

subsection \<open>\<^verbatim>\<open>PackageCrawler\<close>\<close>

record PackageCrawler =
  repo_url :: string
  packages :: pyval

text \<open>\<^verbatim>\<open>_add_base_url(self, url)\<close>\<close>

definition add_base_url :: "string \<Rightarrow> string \<Rightarrow> string" where
  "add_base_url self_repo_url url = rstrip self_repo_url ''/simple/'' @ url"

text \<open>
  The attributes an instance has while \<^verbatim>\<open>__init__\<close> runs: what the class body defines
  and what \<^verbatim>\<open>__init__\<close> assigns. The module-level \<^verbatim>\<open>logger\<close> is not one of them.
\<close>

definition crawler_attributes :: "string list" where
  "crawler_attributes = [''__init__'', ''_add_base_url'', ''_get_packages'', ''repo_url'', ''packages'']"

definition getattr_self :: "string \<Rightarrow> py_error + unit" where
  "getattr_self a = (if a \<in> set crawler_attributes then Inr () else Inl (AttributeError a))"

text \<open>
  The comprehension of \<^verbatim>\<open>_get_packages\<close>,
  \<^verbatim>\<open>[(link.string, self._add_base_url(link['href'])) for link in links]\<close>, over the
  tuples \<^verbatim>\<open>get_links\<close> returns: a tuple has no attribute \<^verbatim>\<open>string\<close>, so the first
  element raises.
\<close>

definition listing :: "string \<Rightarrow> link list \<Rightarrow> py_error + pyval" where
  "listing self_repo_url links =
     (case links of
        [] \<Rightarrow> Inr (PList [])
      | _ # _ \<Rightarrow> Inl (AttributeError ''string''))"

text \<open>\<^verbatim>\<open>_get_packages(self, url)\<close>\<close>

definition get_packages :: "env \<Rightarrow> world \<Rightarrow> string \<Rightarrow> string \<Rightarrow> (py_error + pyval) \<times> world" where
  "get_packages E w self_repo_url url =
     (if os_path_exists w ''packages.json'' then
        (let w1 = logger_debug ''packages.json exists, skipping request'' [] w in
         case open_read w1 ''packages.json'' of
           Inl e \<Rightarrow> (Inl e, w1)
         | Inr s \<Rightarrow>
            (case json_loads E s of
               None \<Rightarrow> (Inl JSONDecodeError, w1)
             | Some pkgs \<Rightarrow> (Inr pkgs, w1)))
      else
        (case getattr_self ''logger'' of
           Inl e \<Rightarrow> (Inl e, w)
         | Inr _ \<Rightarrow>
            (let w1 = logger_debug ''packages.json does not exist, making request'' [] w in
             case get_links E w1 self_repo_url of
               (Inl e, w2) \<Rightarrow> (Inl e, w2)
             | (Inr links, w2) \<Rightarrow>
                (case listing self_repo_url links of
                   Inl e \<Rightarrow> (Inl e, w2)
                 | Inr pkgs \<Rightarrow>
                    (case open_write w2 ''packages.json'' of
                       (Inl e, w3) \<Rightarrow> (Inl e, w3)
                     | (Inr f, w3) \<Rightarrow>
                        (case json_dumps E pkgs of
                           Inl e \<Rightarrow> (Inl e, w3)
                         | Inr s \<Rightarrow> (Inr pkgs, file_write f s w3)))))))"

text \<open>\<^verbatim>\<open>PackageCrawler.__init__(self, url)\<close>\<close>

definition PackageCrawler_init :: "env \<Rightarrow> world \<Rightarrow> string \<Rightarrow> (py_error + PackageCrawler) \<times> world" where
  "PackageCrawler_init E w url =
     (case get_packages E w url url of
        (Inl e, w') \<Rightarrow> (Inl e, w')
      | (Inr pkgs, w') \<Rightarrow> (Inr \<lparr>repo_url = url, packages = pkgs\<rparr>, w'))"

subsection \<open>\<^verbatim>\<open>Package\<close>\<close>

record Package =
  name :: string
  pkg_repo_url :: string
  package_versions :: "link list"
  latest_version :: link
  metadata :: distribution

text \<open>
  \<^verbatim>\<open>a < b\<close> on the sort keys \<^verbatim>\<open>x[0]\<close>: two strings compare lexicographically by
  code point, \<^verbatim>\<open>None\<close> compares with nothing.
\<close>

fun py_lt :: "string option \<Rightarrow> string option \<Rightarrow> py_error + bool" where
  "py_lt (Some a) (Some b) = Inr (a < b)"
| "py_lt _ _ = Inl TypeError"

text \<open>
  \<^verbatim>\<open>list.sort(key=lambda x: x[0])\<close>: a stable sort that uses \<^verbatim>\<open><\<close> only, here by
  insertion from the right; a list of fewer than two elements is compared with nothing.
\<close>

fun insort_link :: "link \<Rightarrow> link list \<Rightarrow> py_error + link list" where
  "insort_link x [] = Inr [x]"
| "insort_link x (y # ys) =
     (case py_lt (fst y) (fst x) of
        Inl e \<Rightarrow> Inl e
      | Inr b \<Rightarrow>
          if b then (case insort_link x ys of
                       Inl e \<Rightarrow> Inl e
                     | Inr zs \<Rightarrow> Inr (y # zs))
          else Inr (x # y # ys))"

fun sort_links :: "link list \<Rightarrow> py_error + link list" where
  "sort_links [] = Inr []"
| "sort_links (x # xs) =
     (case sort_links xs of
        Inl e \<Rightarrow> Inl e
      | Inr ys \<Rightarrow> insort_link x ys)"

text \<open>\<^verbatim>\<open>xs[-1]\<close>\<close>

definition last_item :: "'a list \<Rightarrow> py_error + 'a" where
  "last_item xs = (case rev xs of [] \<Rightarrow> Inl IndexError | x # _ \<Rightarrow> Inr x)"

text \<open>Lines 105 and 106 of \<^verbatim>\<open>Package.__init__\<close>: sort, then take the last element.\<close>

definition select_latest :: "link list \<Rightarrow> py_error + link list \<times> link" where
  "select_latest vs =
     (case sort_links vs of
        Inl e \<Rightarrow> Inl e
      | Inr sorted_vs \<Rightarrow>
          (case last_item sorted_vs of
             Inl e \<Rightarrow> Inl e
           | Inr v \<Rightarrow> Inr (sorted_vs, v)))"

text \<open>\<^verbatim>\<open>dist(pkgpath)\<close>: the reader opens the file and parses its content.\<close>

definition dist_new :: "env \<Rightarrow> world \<Rightarrow> dist_class \<Rightarrow> string \<Rightarrow> py_error + distribution" where
  "dist_new E w d pkgpath =
     (case open_read w pkgpath of
        Inl e \<Rightarrow> Inl e
      | Inr c \<Rightarrow>
          (case dist_read E d c of
             Inl e \<Rightarrow> Inl e
           | Inr fs \<Rightarrow> Inr \<lparr>dist_kind = d, dist_filename = pkgpath, dist_fields = fs\<rparr>))"

text \<open>The body of the \<^verbatim>\<open>with\<close> block of \<^verbatim>\<open>extract_metadata\<close>.\<close>

definition extract_body ::
    "env \<Rightarrow> world \<Rightarrow> string \<Rightarrow> string option \<Rightarrow> string \<Rightarrow> (py_error + distribution) \<times> world" where
  "extract_body E w tmpdir filename url =
     (let w1 = logger_debug ''Downloading %s from %s to %s'' [LOpt filename, LStr url, LStr tmpdir] w in
      case requests_get E w1 url of
        (Inl e, w2) \<Rightarrow> (Inl e, w2)
      | (Inr response, w2) \<Rightarrow>
         (let w3 = logger_debug ''Received response with status code %d''
                     [LInt (status_code response)] w2 in
          case os_path_join tmpdir filename of
            Inl e \<Rightarrow> (Inl e, w3)
          | Inr pkgpath \<Rightarrow>
             (case open_write w3 pkgpath of
                (Inl e, w4) \<Rightarrow> (Inl e, w4)
              | (Inr f, w4) \<Rightarrow>
                 (let w5 = file_write f (res_content response) w4;
                      w6 = logger_debug ''Saved package to %s'' [LStr pkgpath] w5;
                      dist = (if endswith pkgpath ''.tar.gz'' then Some SDist
                              else if endswith pkgpath ''.whl'' then Some Wheel
                              else None)
                  in case dist of
                       None \<Rightarrow> (Inl (UnboundLocalError ''dist''), w6)
                     | Some d \<Rightarrow> (dist_new E w6 d pkgpath, w6)))))"

text \<open>
  \<^verbatim>\<open>extract_metadata(self, filename, url)\<close>: the block runs inside
  \<^verbatim>\<open>with TemporaryDirectory() as tmpdir\<close>, whose exit removes the directory whether the
  block returned or raised.
\<close>

definition extract_metadata ::
    "env \<Rightarrow> world \<Rightarrow> string option \<Rightarrow> string \<Rightarrow> (py_error + distribution) \<times> world" where
  "extract_metadata E w filename url =
     (case mkdtemp w (tmp_names E) of
        Inl e \<Rightarrow> (Inl e, w)
      | Inr (tmpdir, w0) \<Rightarrow>
          (let (r, w') = extract_body E w0 tmpdir filename url
           in (r, rmtree (resolve (cwd w') tmpdir) w')))"

text \<open>\<^verbatim>\<open>Package.__init__(self, name, repo_url)\<close>\<close>

definition Package_init :: "env \<Rightarrow> world \<Rightarrow> string \<Rightarrow> string \<Rightarrow> (py_error + Package) \<times> world" where
  "Package_init E w nm url =
     (case get_links E w (url @ nm) of
        (Inl e, w1) \<Rightarrow> (Inl e, w1)
      | (Inr vs, w1) \<Rightarrow>
         (case select_latest vs of
            Inl e \<Rightarrow> (Inl e, w1)
          | Inr (sorted_vs, latest) \<Rightarrow>
             (case extract_metadata E w1 (fst latest) (snd latest) of
                (Inl e, w2) \<Rightarrow> (Inl e, w2)
              | (Inr md, w2) \<Rightarrow>
                  (Inr \<lparr>name = nm, pkg_repo_url = url, package_versions = sorted_vs,
                        latest_version = latest, metadata = md\<rparr>, w2))))"

text \<open>
  A version link whose label is present: the pair (artifact filename, artifact URL), as a
  link of \<^verbatim>\<open>get_links\<close>.
\<close>

definition as_link :: "string \<times> string \<Rightarrow> link" where
  "as_link v = (Some (fst v), snd v)"

text \<open>What exists at or below the directory \<open>d\<close>: the directories and the files.\<close>

definition paths_under :: "path \<Rightarrow> world \<Rightarrow> path list" where
  "paths_under d w = filter (prefix d) (dirs w @ map fst (files w))"

subsection \<open>A concrete index\<close>

text \<open>
  A small index to run the program on: an index root with two packages, a package with two
  source archives, a package with a single \<^verbatim>\<open>.zip\<close> archive, a package with no
  archive, and a page whose anchors are a bookmark without \<^verbatim>\<open>href\<close> and a link
  without a single text child.
\<close>

definition page :: "string \<Rightarrow> response" where
  "page t = \<lparr>res_text = t, res_content = t, status_code = 200\<rparr>"

definition index_html :: string where
  "index_html = ''<a href=/simple/pkg-a/>pkg-a</a><a href=/simple/pkg-b/>pkg-b</a>''"

definition versions_html :: string where
  "versions_html =
     ''<a href=https://files.example/pkg-1.9.tar.gz>pkg-1.9.tar.gz</a><a href=https://files.example/pkg-1.10.tar.gz>pkg-1.10.tar.gz</a>''"

definition zip_html :: string where
  "zip_html = ''<a href=https://files.example/old-1.0.zip>old-1.0.zip</a>''"

definition bookmark_html :: string where
  "bookmark_html = ''<a href=/x><b>x</b><i>y</i></a><a name=top>top</a>''"

definition rich_html :: string where
  "rich_html = ''<a href=/x><b>x</b><i>y</i></a>''"

definition demo_net :: "(string \<times> response) list" where
  "demo_net =
     [(''https://pypi.org/simple/'', page index_html),
      (''https://pypi.org/simple/pkg'', page versions_html),
      (''https://pypi.org/simple/old'', page zip_html),
      (''https://pypi.org/simple/none'', page []),
      (''https://pypi.org/simple/bookmark'', page bookmark_html),
      (''https://pypi.org/simple/rich'', page rich_html),
      (''https://files.example/pkg-1.9.tar.gz'', page ''sdist of pkg 1.9''),
      (''https://files.example/pkg-1.10.tar.gz'', page ''truncated''),
      (''https://files.example/old-1.0.zip'', page ''zip of old 1.0'')]"

definition demo_anchors :: "(string \<times> anchor list) list" where
  "demo_anchors =
     [(index_html,
        [\<lparr>a_string = Some ''pkg-a'', attrs = [(''href'', ''/simple/pkg-a/'')]\<rparr>,
         \<lparr>a_string = Some ''pkg-b'', attrs = [(''href'', ''/simple/pkg-b/'')]\<rparr>]),
      (versions_html,
        [\<lparr>a_string = Some ''pkg-1.9.tar.gz'',
          attrs = [(''href'', ''https://files.example/pkg-1.9.tar.gz'')]\<rparr>,
         \<lparr>a_string = Some ''pkg-1.10.tar.gz'',
          attrs = [(''href'', ''https://files.example/pkg-1.10.tar.gz'')]\<rparr>]),
      (zip_html,
        [\<lparr>a_string = Some ''old-1.0.zip'',
          attrs = [(''href'', ''https://files.example/old-1.0.zip'')]\<rparr>]),
      (bookmark_html,
        [\<lparr>a_string = None, attrs = [(''href'', ''/x'')]\<rparr>,
         \<lparr>a_string = Some ''top'', attrs = [(''name'', ''top'')]\<rparr>]),
      (rich_html,
        [\<lparr>a_string = None, attrs = [(''href'', ''/x'')]\<rparr>])]"

definition snapshot_json :: string where
  \<open>snapshot_json = ''[["pkg-a", "https://pypi.org/simple/pkg-a/"]]''\<close>

definition demo_env :: env where
  "demo_env =
     \<lparr>net = (\<lambda>n url. case map_of demo_net url of
                         None \<Rightarrow> Inl ''connection refused''
                       | Some r \<Rightarrow> Inr r),
      find_all_a = (\<lambda>t. case map_of demo_anchors t of
                           None \<Rightarrow> Inr []
                         | Some as \<Rightarrow> Inr as),
      json_loads = (\<lambda>s. if s = snapshot_json
                         then Some (PList [PList [PStr ''pkg-a'', PStr ''https://pypi.org/simple/pkg-a/'']])
                         else None),
      json_dumps = (\<lambda>v. if v = PList [] then Inr ''[]'' else Inl TypeError),
      dist_read = (\<lambda>d c. if d = SDist \<and> c = ''sdist of pkg 1.9''
                          then Inr [(''name'', ''pkg''), (''version'', ''1.9'')]
                          else Inl (DistError ''no metadata found'')),
      tmp_names = [''/tmp/tmpk3x9q2ab'']\<rparr>"

text \<open>A machine with no snapshot, with a snapshot, and with a snapshot that is not JSON.\<close>

definition cold_world :: world where
  "cold_world =
     \<lparr>cwd = [''home'', ''user''],
      dirs = [[''home''], [''home'', ''user''], [''tmp'']],
      files = [],
      requests = [],
      log = []\<rparr>"

definition warm_world :: world where
  "warm_world = cold_world\<lparr>files := [([''home'', ''user'', ''packages.json''], snapshot_json)]\<rparr>"

definition broken_world :: world where
  "broken_world = cold_world\<lparr>files := [([''home'', ''user'', ''packages.json''], ''<html>'')]\<rparr>"

section \<open>Properties of \<^verbatim>\<open>get_links\<close>\<close>

lemma get_links_fetched:
  assumes "net E (length (requests w)) url = Inr res" "find_all_a E (res_text res) = Inr as"
  shows "fst (get_links E w url) = link_pairs as"
  using assms by (simp add: get_links_def requests_get_def Let_def)

lemma get_links_Inr:
  assumes "fst (get_links E w url) = Inr ls"
  shows "\<exists>res as. net E (length (requests w)) url = Inr res
           \<and> find_all_a E (res_text res) = Inr as \<and> link_pairs as = Inr ls"
  using assms by (auto simp add: get_links_def requests_get_def Let_def split: sum.splits)

lemma link_pairs_missing:
  "a \<in> set as \<Longrightarrow> map_of (attrs a) ''href'' = None \<Longrightarrow> link_pairs as = Inl (KeyError ''href'')"
  by (induction as) (auto simp: getitem_def split: option.splits sum.splits)

lemma link_pairs_Inr:
  "link_pairs as = Inr ls \<Longrightarrow>
     list_all2 (\<lambda>a l. fst l = a_string a \<and> map_of (attrs a) ''href'' = Some (snd l)) as ls"
  by (induction as arbitrary: ls) (auto simp: getitem_def split: option.splits sum.splits)

text \<open>
  Claim C4. When the GET request of \<^verbatim>\<open>get_links\<close> raises, the exception does not leave
  the function: the handler logs it at error level, the function goes on to the parsing
  stage (its next log record), reads the response that was never assigned, and the call
  fails with the unbound-local error on \<^verbatim>\<open>res\<close>, which is not the error of the network.
\<close>

theorem get_links_request_failure:
  assumes "net E (length (requests w)) url = Inl msg"
  shows "get_links E w url =
          (Inl (UnboundLocalError ''res''),
           w\<lparr>requests := requests w @ [url],
             log := log w @
               [(ERROR, ''Failed to make the request: %s'', [LErr (RequestException msg)]),
                (DEBUG, ''Parsing the HTML content...'', [])]\<rparr>)
        \<and> fst (get_links E w url) \<noteq> Inl (RequestException msg)"
  using assms by (simp add: get_links_def requests_get_def logger_debug_def logger_error_def)

theorem get_links_request_failure_witness:
  "net demo_env (length (requests cold_world)) ''https://pypi.org/simple/missing''
     = Inl ''connection refused''
   \<and> get_links demo_env cold_world ''https://pypi.org/simple/missing'' =
          (Inl (UnboundLocalError ''res''),
           cold_world\<lparr>requests := requests cold_world @ [''https://pypi.org/simple/missing''],
             log := log cold_world @
               [(ERROR, ''Failed to make the request: %s'',
                  [LErr (RequestException ''connection refused'')]),
                (DEBUG, ''Parsing the HTML content...'', [])]\<rparr>)
   \<and> fst (get_links demo_env cold_world ''https://pypi.org/simple/missing'')
        \<noteq> Inl (RequestException ''connection refused'')"
proof -
  have h: "net demo_env (length (requests cold_world)) ''https://pypi.org/simple/missing''
     = Inl ''connection refused''"
    by (simp add: demo_env_def demo_net_def)
  show ?thesis
    using h get_links_request_failure[OF h] by simp
qed

text \<open>
  Claim C10. When the page was fetched and parsed and one of its anchors has no
  \<^verbatim>\<open>href\<close> attribute, \<^verbatim>\<open>get_links\<close> raises the key error on \<^verbatim>\<open>href\<close> and returns
  no list. So whenever it returns a list, the page was fetched and parsed, and the list is,
  anchor by anchor, the label of the anchor (present or not) paired with the value its
  \<^verbatim>\<open>href\<close> attribute has.
\<close>

theorem get_links_missing_href:
  "(net E (length (requests w)) url = Inr res \<and> find_all_a E (res_text res) = Inr as
      \<and> (\<exists>a\<in>set as. map_of (attrs a) ''href'' = None)
     \<longrightarrow> fst (get_links E w url) = Inl (KeyError ''href''))
   \<and> (fst (get_links E w url) = Inr ls
     \<longrightarrow> (\<exists>res as. net E (length (requests w)) url = Inr res
            \<and> find_all_a E (res_text res) = Inr as
            \<and> list_all2 (\<lambda>a l. fst l = a_string a \<and> map_of (attrs a) ''href'' = Some (snd l))
                 as ls))"
proof (intro conjI impI)
  assume h: "net E (length (requests w)) url = Inr res \<and> find_all_a E (res_text res) = Inr as
      \<and> (\<exists>a\<in>set as. map_of (attrs a) ''href'' = None)"
  then obtain a where "a \<in> set as" "map_of (attrs a) ''href'' = None" by blast
  then have "link_pairs as = Inl (KeyError ''href'')" by (rule link_pairs_missing)
  with h show "fst (get_links E w url) = Inl (KeyError ''href'')"
    by (simp add: get_links_fetched)
next
  assume "fst (get_links E w url) = Inr ls"
  then obtain res as where "net E (length (requests w)) url = Inr res"
      "find_all_a E (res_text res) = Inr as" "link_pairs as = Inr ls"
    using get_links_Inr by blast
  then show "\<exists>res as. net E (length (requests w)) url = Inr res
            \<and> find_all_a E (res_text res) = Inr as
            \<and> list_all2 (\<lambda>a l. fst l = a_string a \<and> map_of (attrs a) ''href'' = Some (snd l))
                 as ls"
    using link_pairs_Inr by blast
qed

theorem get_links_missing_href_witness:
  "fst (get_links demo_env cold_world ''https://pypi.org/simple/bookmark'') = Inl (KeyError ''href'')
   \<and> fst (get_links demo_env cold_world ''https://pypi.org/simple/rich'') = Inr [(None, ''/x'')]
   \<and> (\<exists>res as. net demo_env (length (requests cold_world)) ''https://pypi.org/simple/rich'' = Inr res
            \<and> find_all_a demo_env (res_text res) = Inr as
            \<and> list_all2 (\<lambda>a l. fst l = a_string a \<and> map_of (attrs a) ''href'' = Some (snd l))
                 as [(None, ''/x'')])"
proof -
  have n: "net demo_env (length (requests cold_world)) ''https://pypi.org/simple/bookmark''
             = Inr (page bookmark_html)"
    by (simp add: demo_env_def demo_net_def)
  have f: "find_all_a demo_env (res_text (page bookmark_html)) =
             Inr [\<lparr>a_string = None, attrs = [(''href'', ''/x'')]\<rparr>,
                  \<lparr>a_string = Some ''top'', attrs = [(''name'', ''top'')]\<rparr>]"
    by code_simp
  have m: "\<exists>a\<in>set [\<lparr>a_string = None, attrs = [(''href'', ''/x'')]\<rparr>,
                  \<lparr>a_string = Some ''top'', attrs = [(''name'', ''top'')]\<rparr>].
              map_of (attrs a) ''href'' = None"
    by simp
  have r: "fst (get_links demo_env cold_world ''https://pypi.org/simple/rich'') = Inr [(None, ''/x'')]"
    by code_simp
  show ?thesis
    using get_links_missing_href[of demo_env cold_world "''https://pypi.org/simple/bookmark''"
            "page bookmark_html" "[\<lparr>a_string = None, attrs = [(''href'', ''/x'')]\<rparr>,
                  \<lparr>a_string = Some ''top'', attrs = [(''name'', ''top'')]\<rparr>]"]
          get_links_missing_href[of demo_env cold_world "''https://pypi.org/simple/rich''" _ _ "[(None, ''/x'')]"]
          n f m r
    by blast
qed

section \<open>Properties of \<^verbatim>\<open>Package\<close>\<close>

subsection \<open>The sort is the stable sort by file name\<close>

lemma insort_link_as_link:
  "insort_link (as_link x) (map as_link ys) = Inr (map as_link (insort_key fst x ys))"
  by (induction ys) (auto simp: as_link_def)

lemma sort_links_as_link:
  "sort_links (map as_link vs) = Inr (map as_link (sort_key fst vs))"
  by (induction vs) (simp_all add: insort_link_as_link)

lemma last_item_nonempty: "xs \<noteq> [] \<Longrightarrow> last_item xs = Inr (last xs)"
  by (cases xs rule: rev_cases) (simp_all add: last_item_def)

lemma sort_key_nonempty: "xs \<noteq> [] \<Longrightarrow> sort_key f xs \<noteq> []"
  by (metis length_sort list.size(3) length_0_conv)

lemma last_sort_key_max:
  fixes f :: "'a \<Rightarrow> 'b::linorder"
  assumes "xs \<noteq> []"
  shows "last (sort_key f xs) \<in> set xs" and "\<forall>x\<in>set xs. f x \<le> f (last (sort_key f xs))"
proof -
  let ?ys = "sort_key f xs"
  have ne: "?ys \<noteq> []" using assms by (rule sort_key_nonempty)
  then have "last ?ys \<in> set ?ys" by (rule last_in_set)
  then show "last ?ys \<in> set xs" by simp
  have s: "sorted (map f ?ys)" by simp
  show "\<forall>x\<in>set xs. f x \<le> f (last ?ys)"
  proof
    fix x assume "x \<in> set xs"
    then have "x \<in> set ?ys" by simp
    then obtain i where i: "i < length ?ys" "?ys ! i = x" by (metis in_set_conv_nth)
    have "map f ?ys ! i \<le> map f ?ys ! (length ?ys - 1)"
      using s i ne by (intro sorted_nth_mono) auto
    then show "f x \<le> f (last ?ys)" using i ne by (simp add: last_conv_nth)
  qed
qed

lemma last_filter_last: "xs \<noteq> [] \<Longrightarrow> P (last xs) \<Longrightarrow> last (filter P xs) = last xs"
  by (induction xs rule: rev_induct) simp_all

lemma last_sort_key_stable:
  fixes f :: "'a \<Rightarrow> 'b::linorder"
  assumes "xs \<noteq> []"
  shows "last (sort_key f xs) = last (filter (\<lambda>y. f y = f (last (sort_key f xs))) xs)"
proof -
  let ?ys = "sort_key f xs"
  let ?k = "f (last ?ys)"
  have ne: "?ys \<noteq> []" using assms by (rule sort_key_nonempty)
  have "last ?ys = last (filter (\<lambda>y. f y = ?k) ?ys)"
    using ne by (simp add: last_filter_last)
  also have "filter (\<lambda>y. f y = ?k) ?ys = filter (\<lambda>y. f y = ?k) xs"
    by (rule sort_key_stable)
  finally show ?thesis .
qed

lemma select_latest_as_link:
  assumes "vs \<noteq> []"
  shows "select_latest (map as_link vs) =
           Inr (map as_link (sort_key fst vs), as_link (last (sort_key fst vs)))"
  using sort_key_nonempty[OF assms, of fst]
  by (simp add: select_latest_def sort_links_as_link last_item_nonempty last_map)

end
